theory Spec2Isabelle
  imports Main
begin

section \<open>flask\_oauthlib.provider: data model\<close>

text \<open>
  The module \<^verbatim>\<open>flask_oauthlib/provider.py\<close> adapts the oauthlib OAuth2 engine to Flask.
  Its objects are duck-typed Python objects; the records below hold the attributes the
  docstrings of \<^verbatim>\<open>OAuth.clientgetter\<close>, \<^verbatim>\<open>OAuth.tokengetter\<close> and
  \<^verbatim>\<open>OAuthRequestValidator\<close> list. A getter that finds nothing returns Python's
  \<^verbatim>\<open>None\<close>, which is \<open>None\<close> here; an object that is found is truthy.
  Exceptions are values of \<open>py_error\<close>, and a function that may raise returns a sum
  with the exception on the left.
\<close>

type_synonym twotuples = "(string \<times> string) list"

datatype py_error =
    AttributeError
  | TypeError
  | RuntimeError
  | BuildError
  | FatalClientError twotuples
  | OAuth2Error twotuples

text \<open>
  The client object: \<^verbatim>\<open>client_id\<close>, \<^verbatim>\<open>client_secret\<close>, \<^verbatim>\<open>client_type\<close>,
  \<^verbatim>\<open>redirect_uris\<close>, \<^verbatim>\<open>default_redirect_uri\<close>, \<^verbatim>\<open>default_scopes\<close>. The optional
  attribute \<^verbatim>\<open>confidential\<close> is the one \<^verbatim>\<open>authenticate_client_id\<close> probes with
  \<^verbatim>\<open>hasattr\<close>: \<open>None\<close> when the object has no such attribute.
\<close>

record client =
  client_id :: string
  client_secret :: string
  client_type :: string
  redirect_uris :: "string list"
  default_redirect_uri :: string
  default_scopes :: "string list"
  confidential :: "string option"

text \<open>
  The request object that oauthlib passes to every validator method. The validator reads
  and assigns its attributes \<^verbatim>\<open>client\<close>, \<^verbatim>\<open>user\<close> and \<^verbatim>\<open>scopes\<close>; oauthlib
  initialises each of them to \<^verbatim>\<open>None\<close>.
\<close>

record request =
  client :: "client option"
  user :: "string option"
  scopes :: "string list option"

text \<open>
  The token object: \<^verbatim>\<open>scopes\<close> (a list of scopes), \<^verbatim>\<open>expires\<close> (a naive
  \<^verbatim>\<open>datetime.datetime\<close>, here the number of microseconds since the epoch, so that
  \<^verbatim>\<open>>\<close> on datetimes is \<open>>\<close> on integers) and \<^verbatim>\<open>user\<close> (the user object, here its
  identifier). Fields that share a name with a field of \<open>request\<close> are written
  qualified: \<open>token.scopes\<close>, \<open>request.scopes\<close>.
\<close>

record token =
  scopes :: "string list"
  expires :: int
  user :: string

text \<open>
  Modelled from the spec: the attributes of the grant object, which the source does not
  declare. The source asks one thing of a grant, a \<^verbatim>\<open>delete\<close> method
  (\<^verbatim>\<open>OAuth.grantgetter\<close>, \<^verbatim>\<open>invalidate_authorization_code\<close>), and reads none of its
  attributes; the fields are those of the spec's AuthorizationGrant (\<^verbatim>\<open>code\<close>,
  \<^verbatim>\<open>client_id\<close>, \<^verbatim>\<open>redirect_uri\<close>, \<^verbatim>\<open>scopes\<close>, \<^verbatim>\<open>user_id\<close>,
  \<^verbatim>\<open>expires_at\<close>).
\<close>

record grant =
  code :: string
  client_id :: string
  redirect_uri :: string
  scopes :: "string list"
  user_id :: string
  expires_at :: int

text \<open>
  The getters registered by the application. The token getter takes the keyword arguments
  \<^verbatim>\<open>access_token=None, refresh_token=None\<close>, in this order.
\<close>

type_synonym clientgetter_fn = "string \<Rightarrow> client option"
type_synonym tokengetter_fn = "string option \<Rightarrow> string option \<Rightarrow> token option"
type_synonym grantgetter_fn = "string \<Rightarrow> string \<Rightarrow> grant option"

section \<open>OAuthRequestValidator\<close>

text \<open>
  \<^verbatim>\<open>OAuthRequestValidator.__init__\<close> stores the getters on the instance; \<open>self\<close>
  below is that instance.
\<close>

record OAuthRequestValidator =
  clientgetter :: clientgetter_fn
  tokengetter :: tokengetter_fn
  grantgetter :: grantgetter_fn

text \<open>
  \<^verbatim>\<open>validate_bearer_token(self, token, scopes, request)\<close>, lines 294-321. The clock
  \<^verbatim>\<open>datetime.datetime.utcnow()\<close> is the argument \<open>now\<close>. The result is the returned
  boolean with the request object as the call leaves it.
\<close>

definition validate_bearer_token ::
  "OAuthRequestValidator \<Rightarrow> int \<Rightarrow> string \<Rightarrow> string list \<Rightarrow> request \<Rightarrow> bool \<times> request"
where
  "validate_bearer_token self now tkn scps rq =
     (case tokengetter self (Some tkn) None of
        None \<Rightarrow> (False, rq)
      | Some tok \<Rightarrow>
          if now > expires tok then (False, rq)
          else if \<not> (set (token.scopes tok) \<supseteq> set scps) then (False, rq)
          else (True, rq\<lparr>request.user := Some (token.user tok),
                         request.scopes := Some scps\<rparr>))"

text \<open>
  \<^verbatim>\<open>authenticate_client_id(self, client_id, request)\<close>, lines 247-265.
  \<^verbatim>\<open>request.client or self._clientgetter(client_id)\<close> is the client already attached to
  the request when there is one, and the result of the lookup otherwise. The client is
  attached to the request before the comparison, so also when the result is false.
\<close>

definition authenticate_client_id ::
  "OAuthRequestValidator \<Rightarrow> string \<Rightarrow> request \<Rightarrow> bool \<times> request"
where
  "authenticate_client_id self cid rq =
     (case (case request.client rq of Some c \<Rightarrow> Some c | None \<Rightarrow> clientgetter self cid) of
        None \<Rightarrow> (False, rq)
      | Some c \<Rightarrow>
          (client_type c \<noteq>
             (case confidential c of Some marker \<Rightarrow> marker | None \<Rightarrow> ''confidential''),
           rq\<lparr>request.client := Some c\<rparr>))"

text \<open>
  \<^verbatim>\<open>confirm_scopes(self, refresh_token, scopes, request)\<close>, lines 267-269. There is no test
  of the lookup's result: \<^verbatim>\<open>tok.scopes\<close> on \<^verbatim>\<open>None\<close> raises \<^verbatim>\<open>AttributeError\<close>.
  The request object is not touched.
\<close>

definition confirm_scopes ::
  "OAuthRequestValidator \<Rightarrow> string \<Rightarrow> string list \<Rightarrow> request \<Rightarrow> py_error + bool"
where
  "confirm_scopes self rt scps rq =
     (case tokengetter self None (Some rt) of
        None \<Rightarrow> Inl AttributeError
      | Some tok \<Rightarrow> Inr (set (token.scopes tok) = set scps))"

text \<open>
  \<^verbatim>\<open>validate_client_id(self, client_id, request)\<close>, lines 323-329.
\<close>

definition validate_client_id ::
  "OAuthRequestValidator \<Rightarrow> string \<Rightarrow> request \<Rightarrow> bool \<times> request"
where
  "validate_client_id self cid rq =
     (case (case request.client rq of Some c \<Rightarrow> Some c | None \<Rightarrow> clientgetter self cid) of
        Some c \<Rightarrow> (True, rq\<lparr>request.client := Some c\<rparr>)
      | None \<Rightarrow> (False, rq))"

text \<open>
  \<^verbatim>\<open>validate_code(self, client_id, code, client, request)\<close>, lines 331-333. The body is
  \<^verbatim>\<open># TODO\<close> and \<^verbatim>\<open>pass\<close>: the call returns Python's \<^verbatim>\<open>None\<close> (here \<open>None\<close>: no
  boolean) and reads neither the grant getter nor the request.
\<close>

definition validate_code ::
  "OAuthRequestValidator \<Rightarrow> string \<Rightarrow> string \<Rightarrow> client option \<Rightarrow> request \<Rightarrow>
   bool option \<times> request"
where
  "validate_code self cid cde cl rq = (None, rq)"

text \<open>
  What the specification asks of \<^verbatim>\<open>validate_code(client_id, code, redirect_uri)\<close>, in its
  words: true iff a non-expired grant exists for exactly this (client\_id, code), and its
  stored redirect\_uri matches. This definition follows the specification, not the source.
\<close>

definition validate_code_spec ::
  "grantgetter_fn \<Rightarrow> int \<Rightarrow> string \<Rightarrow> string \<Rightarrow> string \<Rightarrow> bool"
where
  "validate_code_spec getter now cid cde uri =
     (case getter cid cde of
        None \<Rightarrow> False
      | Some g \<Rightarrow> now < expires_at g \<and> grant.redirect_uri g = uri)"

text \<open>
  \<^verbatim>\<open>validate_redirect_uri(self, client_id, redirect_uri, request)\<close>, lines 340-344. The
  chained assignment stores the result of the lookup in \<^verbatim>\<open>request.client\<close>, whatever was
  there; \<^verbatim>\<open>request.client.redirect_uris\<close> then raises \<^verbatim>\<open>AttributeError\<close> when the lookup
  returned \<^verbatim>\<open>None\<close>. \<^verbatim>\<open>redirect_uris\<close> is a list, and \<^verbatim>\<open>in\<close> is membership.
\<close>

definition validate_redirect_uri ::
  "OAuthRequestValidator \<Rightarrow> string \<Rightarrow> string \<Rightarrow> request \<Rightarrow> (py_error + bool) \<times> request"
where
  "validate_redirect_uri self cid uri rq =
     (let rq' = rq\<lparr>request.client := clientgetter self cid\<rparr>
      in case request.client rq' of
           None \<Rightarrow> (Inl AttributeError, rq')
         | Some c \<Rightarrow> (Inr (uri \<in> set (redirect_uris c)), rq'))"

section \<open>OAuth\<close>

text \<open>
  The Flask side. \<^verbatim>\<open>app.config\<close> is a dictionary from setting names to values; the
  settings read here are strings. The Flask request holds what \<^verbatim>\<open>_extract_params\<close> and
  \<^verbatim>\<open>authorize_handler\<close> read from the global \<^verbatim>\<open>request\<close>; \<open>req_method\<close> is its
  attribute \<^verbatim>\<open>method\<close>.
\<close>

record flask_app =
  config :: "string \<rightharpoonup> string"


datatype pyval = Str string | StrList "string list"

type_synonym kwargs = "string \<rightharpoonup> pyval"

datatype response = Redirect string | Page string

type_synonym view = "pyval list \<Rightarrow> kwargs \<Rightarrow> py_error + response"

text \<open>
  The \<^verbatim>\<open>OAuth\<close> instance. \<open>app\<close> is the attribute \<^verbatim>\<open>self.app\<close>: \<open>None\<close> when it was
  never assigned (\<^verbatim>\<open>__init__\<close> without an application assigns nothing), \<open>Some None\<close>
  when it holds \<^verbatim>\<open>None\<close>. The three other fields are the attributes \<^verbatim>\<open>_clientgetter\<close>,
  \<^verbatim>\<open>_tokengetter\<close> and \<^verbatim>\<open>_grantgetter\<close> that the registration decorators assign:
  \<open>None\<close> when \<^verbatim>\<open>hasattr\<close> is false.
\<close>

record OAuth =
  app :: "flask_app option option"
  reg_clientgetter :: "clientgetter_fn option"
  reg_tokengetter :: "tokengetter_fn option"
  reg_grantgetter :: "grantgetter_fn option"

datatype server = Server OAuthRequestValidator

text \<open>
  What the module calls and does not define: the application on top of Flask's context
  stack (\<^verbatim>\<open>_app_ctx_stack.top\<close>), Flask's \<^verbatim>\<open>url_for\<close> (it raises \<^verbatim>\<open>BuildError\<close> for an
  endpoint it cannot resolve), oauthlib's \<^verbatim>\<open>urlencoded\<close>, the method \<^verbatim>\<open>in_uri\<close> of an
  oauthlib error (the error is represented by its \<^verbatim>\<open>twotuples\<close>), and the engine's
  \<^verbatim>\<open>Server.validate_authorization_request\<close>, which returns the scopes and the credentials
  or raises.
\<close>

record externals =
  ctx_top :: "flask_app option"
  url_for :: "string \<Rightarrow> py_error + string"
  urlencoded :: "(string \<times> string) list \<Rightarrow> string"
  in_uri :: "twotuples \<Rightarrow> string \<Rightarrow> string"
  validate_authorization_request ::
    "server \<Rightarrow> string \<Rightarrow> string \<Rightarrow> string \<Rightarrow> (string \<rightharpoonup> string) \<Rightarrow>
     py_error + (string list \<times> kwargs)"

text \<open>
  \<^verbatim>\<open>get_app(self)\<close>, lines 79-88.
\<close>

definition get_app :: "OAuth \<Rightarrow> externals \<Rightarrow> py_error + flask_app" where
  "get_app self ext =
     (case app self of
        None \<Rightarrow> Inl AttributeError
      | Some (Some a) \<Rightarrow> Inr a
      | Some None \<Rightarrow>
          (case ctx_top ext of
             Some a \<Rightarrow> Inr a
           | None \<Rightarrow> Inl RuntimeError))"

text \<open>
  Python's truth test on a setting read with \<^verbatim>\<open>app.config.get\<close>: a missing setting
  (\<^verbatim>\<open>None\<close>) and the empty string are false.
\<close>

definition truthy :: "string option \<Rightarrow> string option" where
  "truthy v = (case v of None \<Rightarrow> None | Some [] \<Rightarrow> None | Some (c # cs) \<Rightarrow> Some (c # cs))"

text \<open>
  \<^verbatim>\<open>error_uri(self)\<close>, lines 90-99: the body of the cached property, that is its value at
  the first access, which the instance keeps.
\<close>

definition error_uri :: "OAuth \<Rightarrow> externals \<Rightarrow> py_error + string" where
  "error_uri self ext =
     (case get_app self ext of
        Inl e \<Rightarrow> Inl e
      | Inr a \<Rightarrow>
          (case truthy (config a ''OAUTH_PROVIDER_ERROR_URI'') of
             Some u \<Rightarrow> Inr u
           | None \<Rightarrow>
               (case truthy (config a ''OAUTH_PROVIDER_ERROR_ENDPOINT'') of
                  Some error_endpoint \<Rightarrow> url_for ext error_endpoint
                | None \<Rightarrow> Inr ''/errors'')))"

text \<open>
  \<^verbatim>\<open>server(self)\<close>, lines 101-112.
\<close>

definition server :: "OAuth \<Rightarrow> py_error + server" where
  "server self =
     (case reg_clientgetter self of
        None \<Rightarrow> Inl RuntimeError
      | Some cg \<Rightarrow>
          (case reg_tokengetter self of
             None \<Rightarrow> Inl RuntimeError
           | Some tg \<Rightarrow>
               (case reg_grantgetter self of
                  None \<Rightarrow> Inl RuntimeError
                | Some gg \<Rightarrow>
                    Inr (Server \<lparr>clientgetter = cg, tokengetter = tg, grantgetter = gg\<rparr>))))"



text \<open>
  \<^verbatim>\<open>require_oauth(self, scope=None)\<close>, lines 208-209. The body is \<^verbatim>\<open>pass\<close>: the call
  returns Python's \<^verbatim>\<open>None\<close>, here \<open>None\<close>: no decorator.
\<close>

definition require_oauth :: "OAuth \<Rightarrow> string list option \<Rightarrow> (view \<Rightarrow> view) option" where
  "require_oauth self scope = None"

text \<open>
  The use of \<^verbatim>\<open>require_oauth\<close> that the docstring of the class shows,
  \<^verbatim>\<open>@oauth.require_oauth(['email'])\<close> above a view, calls the returned value with the
  view. Calling \<^verbatim>\<open>None\<close> raises \<^verbatim>\<open>TypeError\<close>.
\<close>

definition decorate :: "(view \<Rightarrow> view) option \<Rightarrow> view \<Rightarrow> py_error + view" where
  "decorate d f = (case d of None \<Rightarrow> Inl TypeError | Some g \<Rightarrow> Inr (g f))"

section \<open>Concrete objects\<close>

definition empty_request :: request where
  "empty_request = \<lparr>request.client = None, request.user = None, request.scopes = None\<rparr>"

definition abc_token :: token where
  "abc_token = \<lparr>token.scopes = [''a'', ''b'', ''c''], expires = 1000, token.user = ''alice''\<rparr>"

definition a_token :: token where
  "a_token = \<lparr>token.scopes = [''a''], expires = 1000, token.user = ''alice''\<rparr>"

definition demo_tokens :: tokengetter_fn where
  "demo_tokens access_token refresh_token =
     (if access_token = Some ''T1'' \<or> refresh_token = Some ''R1'' then Some abc_token
      else if refresh_token = Some ''RA'' then Some a_token
      else None)"

definition public_client :: client where
  "public_client =
     \<lparr>client.client_id = ''C1'', client_secret = '''', client_type = ''public'',
      redirect_uris = [''https://app/cb''], default_redirect_uri = ''https://app/cb'',
      default_scopes = [''email''], confidential = None\<rparr>"

definition confidential_client :: client where
  "confidential_client =
     \<lparr>client.client_id = ''C2'', client_secret = ''s3cret'', client_type = ''confidential'',
      redirect_uris = [''https://srv/cb''], default_redirect_uri = ''https://srv/cb'',
      default_scopes = [''email''], confidential = None\<rparr>"

definition marked_client :: client where
  "marked_client = confidential_client\<lparr>client.client_id := ''C3'', confidential := Some ''secret''\<rparr>"

definition demo_clients :: clientgetter_fn where
  "demo_clients cid =
     (if cid = ''C1'' then Some public_client
      else if cid = ''C2'' then Some confidential_client
      else if cid = ''C3'' then Some marked_client
      else None)"

definition xyz_grant :: grant where
  "xyz_grant =
     \<lparr>code = ''XYZ'', grant.client_id = ''C1'', grant.redirect_uri = ''https://app/cb'',
      grant.scopes = [''email''], user_id = ''alice'', expires_at = 600\<rparr>"

definition demo_grants :: grantgetter_fn where
  "demo_grants cid cde = (if cid = ''C1'' \<and> cde = ''XYZ'' then Some xyz_grant else None)"

definition demo_validator :: OAuthRequestValidator where
  "demo_validator =
     \<lparr>clientgetter = demo_clients, tokengetter = demo_tokens, grantgetter = demo_grants\<rparr>"

definition plain_app :: flask_app where
  "plain_app = \<lparr>config = Map.empty\<rparr>"

definition uri_app :: flask_app where
  "uri_app =
     \<lparr>config = [''OAUTH_PROVIDER_ERROR_URI'' \<mapsto> ''/oauth/errors'',
                 ''OAUTH_PROVIDER_ERROR_ENDPOINT'' \<mapsto> ''oauth.errors'']\<rparr>"

definition blank_uri_app :: flask_app where
  "blank_uri_app =
     \<lparr>config = [''OAUTH_PROVIDER_ERROR_URI'' \<mapsto> '''',
                 ''OAUTH_PROVIDER_ERROR_ENDPOINT'' \<mapsto> ''oauth.errors'']\<rparr>"


definition demo_oauth :: "flask_app \<Rightarrow> OAuth" where
  "demo_oauth a =
     \<lparr>app = Some (Some a), reg_clientgetter = Some demo_clients,
      reg_tokengetter = Some demo_tokens, reg_grantgetter = Some demo_grants\<rparr>"

definition demo_url_for :: "string \<Rightarrow> py_error + string" where
  "demo_url_for endpoint =
     (if endpoint = ''oauth.errors'' then Inr ''/pages/oauth-errors'' else Inl BuildError)"

definition demo_in_uri :: "twotuples \<Rightarrow> string \<Rightarrow> string" where
  "demo_in_uri params uri =
     uri @ ''?'' @ concat (map (\<lambda>(k, v). k @ ''='' @ v @ ''&'') params)"

text \<open>
  A stand-in for the engine, cut down to the first two checks that oauthlib's
  authorization-code grant makes on an authorization request: it asks the validator for
  the client and for the redirect URI, and raises a fatal client error when either check
  fails. \<open>demo_query\<close> is the decoded query of the two request URLs used below.
\<close>

definition demo_query :: "string \<Rightarrow> (string \<times> string) option" where
  "demo_query uri =
     (if uri = ''https://as/authorize?client_id=C1&redirect_uri=https%3A%2F%2Fevil%2Fcb''
      then Some (''C1'', ''https://evil/cb'')
      else if uri = ''https://as/authorize?client_id=C1&redirect_uri=https%3A%2F%2Fother%2Fcb''
      then Some (''C1'', ''https://other/cb'')
      else None)"

definition demo_engine ::
  "server \<Rightarrow> string \<Rightarrow> string \<Rightarrow> string \<Rightarrow> (string \<rightharpoonup> string) \<Rightarrow>
   py_error + (string list \<times> kwargs)"
where
  "demo_engine srv uri http_method body hdrs =
     (case srv of
        Server v \<Rightarrow>
          (case demo_query uri of
             None \<Rightarrow> Inl (FatalClientError [(''error'', ''invalid_request'')])
           | Some (cid, r) \<Rightarrow>
               (case validate_client_id v cid empty_request of
                  (False, rq1) \<Rightarrow> Inl (FatalClientError [(''error'', ''invalid_client_id'')])
                | (True, rq1) \<Rightarrow>
                    (case fst (validate_redirect_uri v cid r rq1) of
                       Inl x \<Rightarrow> Inl x
                     | Inr False \<Rightarrow>
                         Inl (FatalClientError [(''error'', ''mismatching_redirect_uri'')])
                     | Inr True \<Rightarrow>
                         Inr ([''email''],
                              [''client_id'' \<mapsto> Str cid, ''redirect_uri'' \<mapsto> Str r])))))"

definition demo_externals :: externals where
  "demo_externals =
     \<lparr>ctx_top = None, url_for = demo_url_for, urlencoded = (\<lambda>items. ''''),
      in_uri = demo_in_uri, validate_authorization_request = demo_engine\<rparr>"



definition consent_view :: view where
  "consent_view a kw = Inr (Page ''oauthorize.html'')"

section \<open>Bearer token validation\<close>

lemma validate_bearer_token_absent:
  "tokengetter self (Some tkn) None = None \<Longrightarrow>
   validate_bearer_token self now tkn scps rq = (False, rq)"
  by (simp add: validate_bearer_token_def)

lemma validate_bearer_token_found:
  "tokengetter self (Some tkn) None = Some tok \<Longrightarrow>
   validate_bearer_token self now tkn scps rq =
     (if now \<le> expires tok \<and> set scps \<subseteq> set (token.scopes tok)
      then (True, rq\<lparr>request.user := Some (token.user tok), request.scopes := Some scps\<rparr>)
      else (False, rq))"
  by (simp add: validate_bearer_token_def)

text \<open>
  Claim C1. For every bearer token string and every list of required scopes,
  \<open>validate_bearer_token\<close> returns false exactly when the token lookup returns absent,
  or the current time is past the token's expiry, or the required scopes are not a subset
  of the token's scopes; in every other case it returns true and assigns the token's user
  and the required scopes to the request object.
\<close>

theorem validate_bearer_token_correct:
  "(fst (validate_bearer_token self now tkn scps rq) = False \<longleftrightarrow>
      (tokengetter self (Some tkn) None = None \<or>
       (\<exists>tok. tokengetter self (Some tkn) None = Some tok \<and>
          (now > expires tok \<or> \<not> set scps \<subseteq> set (token.scopes tok)))))
   \<and> (fst (validate_bearer_token self now tkn scps rq) = True \<longrightarrow>
      (\<exists>tok. tokengetter self (Some tkn) None = Some tok \<and>
         snd (validate_bearer_token self now tkn scps rq) =
           rq\<lparr>request.user := Some (token.user tok), request.scopes := Some scps\<rparr>))"
proof (cases "tokengetter self (Some tkn) None")
  case None
  then show ?thesis by (simp add: validate_bearer_token_absent)
next
  case (Some tok)
  then show ?thesis by (auto simp: validate_bearer_token_found)
qed

theorem validate_bearer_token_correct_witness:
  "fst (validate_bearer_token demo_validator 999 ''T1'' [''a'', ''b''] empty_request) = True
   \<and> snd (validate_bearer_token demo_validator 999 ''T1'' [''a'', ''b''] empty_request) =
       empty_request\<lparr>request.user := Some ''alice'', request.scopes := Some [''a'', ''b'']\<rparr>
   \<and> fst (validate_bearer_token demo_validator 999 ''T1'' [''a'', ''d''] empty_request) = False
   \<and> fst (validate_bearer_token demo_validator 1001 ''T1'' [''a'', ''b''] empty_request) = False
   \<and> fst (validate_bearer_token demo_validator 999 ''T2'' [''a'', ''b''] empty_request) = False"
  using validate_bearer_token_correct
          [of demo_validator 999 "''T1''" "[''a'', ''b'']" empty_request]
        validate_bearer_token_correct
          [of demo_validator 999 "''T1''" "[''a'', ''d'']" empty_request]
        validate_bearer_token_correct
          [of demo_validator 1001 "''T1''" "[''a'', ''b'']" empty_request]
        validate_bearer_token_correct
          [of demo_validator 999 "''T2''" "[''a'', ''b'']" empty_request]
  by (simp add: demo_validator_def demo_tokens_def abc_token_def)

text \<open>
  Claim C8. Token validity as computed by \<open>validate_bearer_token\<close> is monotonic in
  time: with the token store fixed, a validation that succeeds at time \<open>t\<close> succeeds at
  every earlier time \<open>t'\<close>, and validation fails at every time strictly after the
  token's expiry.
\<close>

theorem validate_bearer_token_monotonic:
  "(fst (validate_bearer_token self t tkn scps rq) \<and> t' < t \<longrightarrow>
      fst (validate_bearer_token self t' tkn scps rq'))
   \<and> (tokengetter self (Some tkn) None = Some tok \<and> expires tok < t'' \<longrightarrow>
      \<not> fst (validate_bearer_token self t'' tkn scps rq))"
proof (cases "tokengetter self (Some tkn) None")
  case None
  then show ?thesis by (simp add: validate_bearer_token_absent)
next
  case (Some found)
  then show ?thesis by (auto simp: validate_bearer_token_found)
qed

theorem validate_bearer_token_monotonic_witness:
  "fst (validate_bearer_token demo_validator 1000 ''T1'' [''a''] empty_request)
   \<and> fst (validate_bearer_token demo_validator 3 ''T1'' [''a''] empty_request)
   \<and> tokengetter demo_validator (Some ''T1'') None = Some abc_token
   \<and> expires abc_token < 1001
   \<and> \<not> fst (validate_bearer_token demo_validator 1001 ''T1'' [''a''] empty_request)"
proof -
  have ok: "fst (validate_bearer_token demo_validator 1000 ''T1'' [''a''] empty_request)"
    by (simp add: validate_bearer_token_def demo_validator_def demo_tokens_def abc_token_def)
  have found: "tokengetter demo_validator (Some ''T1'') None = Some abc_token"
    by (simp add: demo_validator_def demo_tokens_def)
  have late: "expires abc_token < 1001"
    by (simp add: abc_token_def)
  from validate_bearer_token_monotonic
         [of demo_validator 1000 "''T1''" "[''a'']" empty_request 3 empty_request
             abc_token 1001]
       ok found late
  show ?thesis by simp
qed

text \<open>
  Claim C9. Whenever \<open>validate_bearer_token\<close> returns false (token absent, expired,
  or scopes insufficient), the request object is left as it was: its \<open>user\<close> and
  \<open>scopes\<close> attributes are assigned on the success path only.
\<close>

theorem validate_bearer_token_frame:
  "\<not> fst (validate_bearer_token self now tkn scps rq) \<Longrightarrow>
   snd (validate_bearer_token self now tkn scps rq) = rq"
  by (simp add: validate_bearer_token_def split: option.splits if_splits)

theorem validate_bearer_token_frame_witness:
  "\<not> fst (validate_bearer_token demo_validator 1001 ''T1'' [''a'']
            (empty_request\<lparr>request.user := Some ''bob''\<rparr>))
   \<and> snd (validate_bearer_token demo_validator 1001 ''T1'' [''a'']
            (empty_request\<lparr>request.user := Some ''bob''\<rparr>)) =
       empty_request\<lparr>request.user := Some ''bob''\<rparr>"
proof -
  have failed: "\<not> fst (validate_bearer_token demo_validator 1001 ''T1'' [''a'']
                        (empty_request\<lparr>request.user := Some ''bob''\<rparr>))"
    by (simp add: validate_bearer_token_def demo_validator_def demo_tokens_def abc_token_def)
  from failed validate_bearer_token_frame [OF failed] show ?thesis by simp
qed

section \<open>Store misses\<close>

text \<open>
  The checks that test the result of the lookup answer false on a miss.
\<close>

lemma validate_client_id_absent:
  "request.client rq = None \<Longrightarrow> clientgetter self cid = None \<Longrightarrow>
   validate_client_id self cid rq = (False, rq)"
  by (simp add: validate_client_id_def)

lemma authenticate_client_id_absent:
  "request.client rq = None \<Longrightarrow> clientgetter self cid = None \<Longrightarrow>
   authenticate_client_id self cid rq = (False, rq)"
  by (simp add: authenticate_client_id_def)

text \<open>
  \<open>validate_redirect_uri\<close> and \<open>confirm_scopes\<close> do not test it: on a miss they
  raise, for every argument.
\<close>

lemma validate_redirect_uri_absent:
  "clientgetter self cid = None \<Longrightarrow>
   validate_redirect_uri self cid uri rq = (Inl AttributeError, rq\<lparr>request.client := None\<rparr>)"
  by (simp add: validate_redirect_uri_def)

lemma validate_redirect_uri_found:
  "clientgetter self cid = Some c \<Longrightarrow>
   validate_redirect_uri self cid uri rq =
     (Inr (uri \<in> set (redirect_uris c)), rq\<lparr>request.client := Some c\<rparr>)"
  by (simp add: validate_redirect_uri_def)

lemma confirm_scopes_absent:
  "tokengetter self None (Some rt) = None \<Longrightarrow>
   confirm_scopes self rt scps rq = Inl AttributeError"
  by (simp add: confirm_scopes_def)

text \<open>
  Claim C2. Every boolean-returning validator check fails closed on a store miss: for a
  client\_id whose client lookup returns absent, \<open>validate_redirect_uri\<close> should return
  false and not raise, and for a refresh token whose token lookup returns absent,
  \<open>confirm_scopes\<close> should return false and not raise. The source does not do this:
  with no client \<^verbatim>\<open>unknown\<close> and no refresh token \<^verbatim>\<open>R9\<close> in the stores, both calls
  raise \<^verbatim>\<open>AttributeError\<close>.
\<close>

theorem store_miss_raises:
  "clientgetter demo_validator ''unknown'' = None
   \<and> validate_redirect_uri demo_validator ''unknown'' ''https://app/cb'' empty_request =
       (Inl AttributeError, empty_request)
   \<and> tokengetter demo_validator None (Some ''R9'') = None
   \<and> confirm_scopes demo_validator ''R9'' [''a''] empty_request = Inl AttributeError"
  by (simp add: validate_redirect_uri_def confirm_scopes_def demo_validator_def
        demo_clients_def demo_tokens_def empty_request_def)

section \<open>Scopes on refresh\<close>

text \<open>
  Claim C3. For every refresh token with a stored token record and every list of requested
  scopes, \<open>confirm_scopes\<close> returns true if and only if the set of requested scopes
  equals the set of scopes stored on that token; a request for a strict superset of the
  stored scopes returns false.
\<close>

theorem confirm_scopes_exact:
  "tokengetter self None (Some rt) = Some tok \<Longrightarrow>
   confirm_scopes self rt scps rq = Inr (set scps = set (token.scopes tok))
   \<and> (set (token.scopes tok) \<subset> set scps \<longrightarrow> confirm_scopes self rt scps rq = Inr False)"
  by (auto simp: confirm_scopes_def)

theorem confirm_scopes_exact_witness:
  "tokengetter demo_validator None (Some ''RA'') = Some a_token
   \<and> set (token.scopes a_token) \<subset> set [''a'', ''b'']
   \<and> confirm_scopes demo_validator ''RA'' [''a'', ''b''] empty_request = Inr False
   \<and> confirm_scopes demo_validator ''RA'' [''a'', ''a''] empty_request = Inr True"
proof -
  have found: "tokengetter demo_validator None (Some ''RA'') = Some a_token"
    by (simp add: demo_validator_def demo_tokens_def)
  have more: "set (token.scopes a_token) \<subset> set [''a'', ''b'']"
    by (auto simp: a_token_def)
  from confirm_scopes_exact [OF found, of "[''a'', ''b'']" empty_request]
       confirm_scopes_exact [OF found, of "[''a'', ''a'']" empty_request]
       found more
  show ?thesis by (simp add: a_token_def)
qed

section \<open>Authorization codes\<close>

text \<open>
  Claim C4. \<open>validate_code\<close> should return true if and only if a non-expired grant
  exists for exactly the given (client\_id, code) and its stored redirect\_uri equals the
  supplied one, and should not delete the grant. The source does not do this: for the
  grant \<^verbatim>\<open>XYZ\<close> of client \<^verbatim>\<open>C1\<close>, which at time 50 is not expired and carries the
  supplied redirect\_uri, the call returns \<^verbatim>\<open>None\<close>, not true.
\<close>

theorem validate_code_unimplemented:
  "grantgetter demo_validator ''C1'' ''XYZ'' = Some xyz_grant
   \<and> validate_code_spec (grantgetter demo_validator) 50 ''C1'' ''XYZ'' ''https://app/cb''
   \<and> validate_code demo_validator ''C1'' ''XYZ'' (Some public_client) empty_request =
       (None, empty_request)"
  by (simp add: validate_code_def validate_code_spec_def demo_validator_def demo_grants_def
        xyz_grant_def)

section \<open>The authorize handler\<close>












section \<open>The resource guard\<close>

text \<open>
  Claim C6. The resource guard \<open>require_oauth\<close> should call
  \<open>validate_bearer_token\<close>, answer a failed check with an \<^verbatim>\<open>invalid_token\<close> or
  \<^verbatim>\<open>insufficient_scope\<close> error without invoking the protected handler, and expose the
  user and the granted scopes to the handler on success. The source does not do this:
  \<open>require_oauth\<close> returns \<^verbatim>\<open>None\<close>, and decorating a view with it, as the docstring of
  \<^verbatim>\<open>OAuth\<close> shows, raises \<^verbatim>\<open>TypeError\<close>.
\<close>

theorem require_oauth_unimplemented:
  "require_oauth (demo_oauth plain_app) (Some [''email'']) = None
   \<and> decorate (require_oauth (demo_oauth plain_app) (Some [''email''])) consent_view =
       Inl TypeError"
  by (simp add: require_oauth_def decorate_def)

section \<open>Public clients\<close>

lemma request_client_same: "request.client rq = v \<Longrightarrow> rq\<lparr>request.client := v\<rparr> = rq"
  by (cases rq) simp

text \<open>
  As stated, claim C7 ties the result of \<open>authenticate_client_id\<close> to the client lookup
  and to the type \<^verbatim>\<open>confidential\<close>. It fails on a request that already carries a client
  (the lookup finds nothing, the result is true), and on a client whose own
  \<^verbatim>\<open>confidential\<close> attribute names another type.
\<close>

theorem authenticate_client_id_bound_counterexample:
  "request.client (empty_request\<lparr>request.client := Some public_client\<rparr>) = Some public_client
   \<and> clientgetter demo_validator ''unknown'' = None
   \<and> fst (authenticate_client_id demo_validator ''unknown''
            (empty_request\<lparr>request.client := Some public_client\<rparr>)) = True
   \<and> clientgetter demo_validator ''C3'' = Some marked_client
   \<and> client_type marked_client = ''confidential''
   \<and> fst (authenticate_client_id demo_validator ''C3'' empty_request) = True"
  by (simp add: authenticate_client_id_def demo_validator_def demo_clients_def
        public_client_def marked_client_def confidential_client_def empty_request_def)

text \<open>
  Claim C7, amended. \<open>authenticate_client_id\<close> returns true if and only if the resolved
  client exists and its \<open>client_type\<close> differs from the confidential marker. The resolved
  client is the one the request already carries, if any, and the result of the client
  lookup otherwise; the marker is the client's own \<^verbatim>\<open>confidential\<close> attribute when it has
  one, and \<^verbatim>\<open>'confidential'\<close> otherwise. A client found by the lookup is bound to the
  request; a client already bound stays.
\<close>

theorem authenticate_client_id_resolved:
  "(request.client rq = None \<longrightarrow>
      (fst (authenticate_client_id self cid rq) \<longleftrightarrow>
         (\<exists>c. clientgetter self cid = Some c \<and>
              client_type c \<noteq>
                (case confidential c of Some marker \<Rightarrow> marker | None \<Rightarrow> ''confidential'')))
      \<and> (\<forall>c. clientgetter self cid = Some c \<longrightarrow>
            snd (authenticate_client_id self cid rq) = rq\<lparr>request.client := Some c\<rparr>))
   \<and> (\<forall>c. request.client rq = Some c \<longrightarrow>
         (fst (authenticate_client_id self cid rq) \<longleftrightarrow>
            client_type c \<noteq>
              (case confidential c of Some marker \<Rightarrow> marker | None \<Rightarrow> ''confidential''))
         \<and> snd (authenticate_client_id self cid rq) = rq)"
proof (cases "request.client rq")
  case None
  then show ?thesis
    by (cases "clientgetter self cid") (simp_all add: authenticate_client_id_def)
next
  case (Some c)
  then show ?thesis
    by (simp add: authenticate_client_id_def request_client_same)
qed

theorem authenticate_client_id_resolved_witness:
  "request.client empty_request = None
   \<and> clientgetter demo_validator ''C1'' = Some public_client
   \<and> authenticate_client_id demo_validator ''C1'' empty_request =
       (True, empty_request\<lparr>request.client := Some public_client\<rparr>)
   \<and> fst (authenticate_client_id demo_validator ''C2'' empty_request) = False
   \<and> fst (authenticate_client_id demo_validator ''unknown'' empty_request) = False
   \<and> authenticate_client_id demo_validator ''unknown''
         (empty_request\<lparr>request.client := Some confidential_client\<rparr>) =
       (False, empty_request\<lparr>request.client := Some confidential_client\<rparr>)"
proof -
  have unbound: "request.client empty_request = None"
    by (simp add: empty_request_def)
  have c1: "clientgetter demo_validator ''C1'' = Some public_client"
    by (simp add: demo_validator_def demo_clients_def)
  have c2: "clientgetter demo_validator ''C2'' = Some confidential_client"
    by (simp add: demo_validator_def demo_clients_def)
  have none: "clientgetter demo_validator ''unknown'' = None"
    by (simp add: demo_validator_def demo_clients_def)
  have bound: "request.client (empty_request\<lparr>request.client := Some confidential_client\<rparr>) =
               Some confidential_client"
    by simp
  from authenticate_client_id_resolved [of empty_request demo_validator "''C1''"]
       authenticate_client_id_resolved [of empty_request demo_validator "''C2''"]
       authenticate_client_id_resolved [of empty_request demo_validator "''unknown''"]
       authenticate_client_id_resolved
         [of "empty_request\<lparr>request.client := Some confidential_client\<rparr>" demo_validator
             "''unknown''"]
       unbound c1 c2 none bound
  show ?thesis
    by (simp add: prod_eq_iff public_client_def confidential_client_def)
qed

section \<open>The error page\<close>

text \<open>
  As stated, claim C10 returns \<^verbatim>\<open>OAUTH_PROVIDER_ERROR_URI\<close> whenever it is set. It fails
  when the setting is the empty string: the truth test of \<open>error_uri\<close> skips it, and the
  endpoint setting decides.
\<close>

theorem error_uri_blank_counterexample:
  "get_app (demo_oauth blank_uri_app) demo_externals = Inr blank_uri_app
   \<and> config blank_uri_app ''OAUTH_PROVIDER_ERROR_URI'' = Some ''''
   \<and> error_uri (demo_oauth blank_uri_app) demo_externals = Inr ''/pages/oauth-errors''"
  by (simp add: error_uri_def get_app_def truthy_def demo_oauth_def blank_uri_app_def
        demo_externals_def demo_url_for_def)

text \<open>
  Claim C10, amended. When the application config gives neither
  \<^verbatim>\<open>OAUTH_PROVIDER_ERROR_URI\<close> nor \<^verbatim>\<open>OAUTH_PROVIDER_ERROR_ENDPOINT\<close> a non-empty value
  (in particular when it sets neither), \<open>error_uri\<close> is the literal \<^verbatim>\<open>/errors\<close>; when
  \<^verbatim>\<open>OAUTH_PROVIDER_ERROR_URI\<close> has a non-empty value, that value is returned unchanged,
  whatever the endpoint setting is.
\<close>

theorem error_uri_default_and_priority:
  "get_app self ext = Inr a \<Longrightarrow>
   (truthy (config a ''OAUTH_PROVIDER_ERROR_URI'') = None \<and>
    truthy (config a ''OAUTH_PROVIDER_ERROR_ENDPOINT'') = None \<longrightarrow>
      error_uri self ext = Inr ''/errors'')
   \<and> (config a ''OAUTH_PROVIDER_ERROR_URI'' = None \<and>
      config a ''OAUTH_PROVIDER_ERROR_ENDPOINT'' = None \<longrightarrow>
        error_uri self ext = Inr ''/errors'')
   \<and> (\<forall>u. config a ''OAUTH_PROVIDER_ERROR_URI'' = Some u \<and> u \<noteq> [] \<longrightarrow>
        error_uri self ext = Inr u)"
  by (auto simp: error_uri_def truthy_def split: list.splits)

theorem error_uri_default_and_priority_witness:
  "get_app (demo_oauth plain_app) demo_externals = Inr plain_app
   \<and> config plain_app ''OAUTH_PROVIDER_ERROR_URI'' = None
   \<and> config plain_app ''OAUTH_PROVIDER_ERROR_ENDPOINT'' = None
   \<and> error_uri (demo_oauth plain_app) demo_externals = Inr ''/errors''
   \<and> get_app (demo_oauth uri_app) demo_externals = Inr uri_app
   \<and> config uri_app ''OAUTH_PROVIDER_ERROR_URI'' = Some ''/oauth/errors''
   \<and> config uri_app ''OAUTH_PROVIDER_ERROR_ENDPOINT'' = Some ''oauth.errors''
   \<and> error_uri (demo_oauth uri_app) demo_externals = Inr ''/oauth/errors''"
proof -
  have plain: "get_app (demo_oauth plain_app) demo_externals = Inr plain_app"
    by (simp add: get_app_def demo_oauth_def)
  have uri: "get_app (demo_oauth uri_app) demo_externals = Inr uri_app"
    by (simp add: get_app_def demo_oauth_def)
  from error_uri_default_and_priority [OF plain] error_uri_default_and_priority [OF uri]
       plain uri
  show ?thesis
    by (simp add: plain_app_def uri_app_def)
qed

end
